theory Spec2Isabelle
  imports Complex_Main "HOL-Library.Word" "HOL-Library.Sublist" "HOL-Library.Code_Target_Numeral"
begin

text \<open>
  A model of the chat widget of \<^verbatim>\<open>static/chat.js\<close>: the markdown-lite formatter as
  functions on strings, and the widget as a state record that each event handler and
  each promise reaction maps to a new state.  The DOM is modelled as far as the script
  reads and writes it; the network is modelled by the requests issued and by the
  outcome with which a pending request settles.
\<close>

section \<open>JavaScript strings\<close>

text \<open>
  A JavaScript string is a sequence of UTF-16 code units; \<open>trim\<close>, \<open>replace\<close> and the
  regular expressions of \<^verbatim>\<open>static/chat.js\<close> (none has the \<open>u\<close> flag) all work on code
  units.  \<open>js\<close> embeds an ASCII literal.
\<close>

type_synonym jschar = "16 word"
type_synonym jsstring = "jschar list"

definition ch :: "char \<Rightarrow> jschar" where
  "ch c = of_char c"

definition js :: "string \<Rightarrow> jsstring" where
  "js s = map ch s"

abbreviation asterisk :: jschar where "asterisk \<equiv> 0x2A"
abbreviation backtick :: jschar where "backtick \<equiv> 0x60"
abbreviation newline :: jschar where "newline \<equiv> 0x0A"
abbreviation hyphen :: jschar where "hyphen \<equiv> 0x2D"

text \<open>
  ECMAScript \<open>LineTerminator\<close> (LF, CR, LS, PS): the code units that \<open>.\<close> does not match.
\<close>

definition isLineTerminator :: "jschar \<Rightarrow> bool" where
  "isLineTerminator c = (c = 0x0A \<or> c = 0x0D \<or> c = 0x2028 \<or> c = 0x2029)"

text \<open>
  ECMAScript \<open>WhiteSpace\<close>: TAB, VT, FF, SP, NBSP, ZWNBSP and the other space separators.
\<close>

definition isWhiteSpace :: "jschar \<Rightarrow> bool" where
  "isWhiteSpace c =
     (c = 0x09 \<or> c = 0x0B \<or> c = 0x0C \<or> c = 0x20 \<or> c = 0xA0 \<or> c = 0x1680 \<or>
      (0x2000 \<le> c \<and> c \<le> 0x200A) \<or> c = 0x202F \<or> c = 0x205F \<or> c = 0x3000 \<or> c = 0xFEFF)"

text \<open>
  What the class \<open>\s\<close> matches and what \<open>String.prototype.trim\<close> strips: white space
  and line terminators.
\<close>

definition isSpace :: "jschar \<Rightarrow> bool" where
  "isSpace c = (isWhiteSpace c \<or> isLineTerminator c)"

definition trim :: "jsstring \<Rightarrow> jsstring" where
  "trim s = rev (dropWhile isSpace (rev (dropWhile isSpace s)))"

section \<open>The markdown-lite formatter\<close>

text \<open>
  \<^verbatim>\<open>formatMessage\<close> chains five global \<open>replace\<close> calls.  A global replace scans left to
  right; at each position the regular expression either matches (the match is replaced
  and the scan goes on after it) or the code unit is copied and the scan moves one on.
  No expression here can match the empty string, and none looks behind the scan
  position, so each pass is a recursion on the rest of the text.
\<close>

subsection \<open>\<^verbatim>\<open>/\*\*(.*?)\*\*/g\<close> to \<^verbatim>\<open><strong>$1</strong>\<close>\<close>

text \<open>
  After the opening \<open>**\<close>: the lazy group takes the shortest run of code units other than
  line terminators that is followed by \<open>**\<close>.  The result is the captured run and the text
  after the closing \<open>**\<close>.
\<close>

fun closeBold :: "jsstring \<Rightarrow> (jsstring \<times> jsstring) option" where
  "closeBold (a # b # t) =
     (if a = asterisk \<and> b = asterisk then Some ([], t)
      else if isLineTerminator a then None
      else (case closeBold (b # t) of
              None \<Rightarrow> None
            | Some (cap, r) \<Rightarrow> Some (a # cap, r)))"
| "closeBold [a] = None"
| "closeBold [] = None"

lemma closeBold_length: "closeBold s = Some (cap, r) \<Longrightarrow> length r < length s"
  by (induction s arbitrary: cap rule: closeBold.induct)
     (auto split: if_splits option.splits)

function bold :: "jsstring \<Rightarrow> jsstring" where
  "bold (a # b # t) =
     (if a = asterisk \<and> b = asterisk then
        (case closeBold t of
           Some (cap, r) \<Rightarrow> js ''<strong>'' @ cap @ js ''</strong>'' @ bold r
         | None \<Rightarrow> a # bold (b # t))
      else a # bold (b # t))"
| "bold [a] = [a]"
| "bold [] = []"
  by pat_completeness auto
termination
  by (relation "measure length") (auto dest: closeBold_length)

subsection \<open>\<^verbatim>\<open>/\*(.*?)\*/g\<close> to \<^verbatim>\<open><em>$1</em>\<close>\<close>

fun closeItalic :: "jsstring \<Rightarrow> (jsstring \<times> jsstring) option" where
  "closeItalic (a # t) =
     (if a = asterisk then Some ([], t)
      else if isLineTerminator a then None
      else (case closeItalic t of
              None \<Rightarrow> None
            | Some (cap, r) \<Rightarrow> Some (a # cap, r)))"
| "closeItalic [] = None"

lemma closeItalic_length: "closeItalic s = Some (cap, r) \<Longrightarrow> length r < length s"
  by (induction s arbitrary: cap rule: closeItalic.induct)
     (auto split: if_splits option.splits)

function italic :: "jsstring \<Rightarrow> jsstring" where
  "italic (a # t) =
     (if a = asterisk then
        (case closeItalic t of
           Some (cap, r) \<Rightarrow> js ''<em>'' @ cap @ js ''</em>'' @ italic r
         | None \<Rightarrow> a # italic t)
      else a # italic t)"
| "italic [] = []"
  by pat_completeness auto
termination
  by (relation "measure length") (auto dest: closeItalic_length)

subsection \<open>The inline-code expression, backtick \<^verbatim>\<open>([^`]+)\<close> backtick, to \<^verbatim>\<open><code>$1</code>\<close>\<close>

text \<open>
  After the opening backtick the greedy class takes every code unit up to the next
  backtick (line terminators too); the match needs at least one of them and the closing
  backtick.  Giving back code units never helps: what follows a shorter run is no
  backtick.
\<close>

lemma dropWhile_rest_shorter: "dropWhile P t = q # r \<Longrightarrow> length r < length t"
  using length_dropWhile_le [of P t] by simp

function inlineCode :: "jsstring \<Rightarrow> jsstring" where
  "inlineCode (a # t) =
     (if a = backtick then
        (case dropWhile (\<lambda>c. c \<noteq> backtick) t of
           [] \<Rightarrow> a # inlineCode t
         | q # r \<Rightarrow>
             if takeWhile (\<lambda>c. c \<noteq> backtick) t = [] then a # inlineCode t
             else js ''<code>'' @ takeWhile (\<lambda>c. c \<noteq> backtick) t @ js ''</code>'' @ inlineCode r)
      else a # inlineCode t)"
| "inlineCode [] = []"
  by pat_completeness auto
termination
  by (relation "measure length") (auto dest: dropWhile_rest_shorter)

subsection \<open>\<^verbatim>\<open>/\n\s*-\s/g\<close> to a line break and the bullet\<close>

text \<open>
  The replacement literal of the source file, after \<^verbatim>\<open><br>\<close> and before the space, is the
  bytes \<^verbatim>\<open>c3 a2 e2 82 ac c2 a2\<close>: as UTF-8, the three code units U+00E2, U+20AC, U+00A2.
\<close>

definition bulletGlyph :: jsstring where
  "bulletGlyph = [0xE2, 0x20AC, 0xA2]"

text \<open>
  After the newline the greedy \<open>\s*\<close> takes the whole run of space code units; a hyphen
  and one more space code unit must follow.  A shorter run is followed by a space, not a
  hyphen, so giving back never helps.
\<close>

function bullets :: "jsstring \<Rightarrow> jsstring" where
  "bullets (a # t) =
     (if a = newline then
        (case dropWhile isSpace t of
           h # w # r \<Rightarrow>
             if h = hyphen \<and> isSpace w then js ''<br>'' @ bulletGlyph @ js '' '' @ bullets r
             else a # bullets t
         | _ \<Rightarrow> a # bullets t)
      else a # bullets t)"
| "bullets [] = []"
  by pat_completeness auto
termination
  by (relation "measure length") (auto dest: dropWhile_rest_shorter)

subsection \<open>\<^verbatim>\<open>/\n/g\<close> to \<^verbatim>\<open><br>\<close>\<close>

definition lineBreaks :: "jsstring \<Rightarrow> jsstring" where
  "lineBreaks s = concat (map (\<lambda>c. if c = newline then js ''<br>'' else [c]) s)"

definition formatMessage :: "jsstring \<Rightarrow> jsstring" where
  "formatMessage text = lineBreaks (bullets (inlineCode (italic (bold text))))"

section \<open>Values exchanged with the endpoint\<close>

text \<open>
  What \<open>response.json()\<close> can resolve with: a parsed JSON text.  A number is the real
  that the double stands for, or an infinity (from a literal too large for a double);
  the widget never computes with it.  An object is the list of its members as the text
  has them; of a repeated key \<open>JSON.parse\<close> keeps the last.
\<close>

datatype jsnumber = Finite real | PlusInfinity | MinusInfinity

datatype json =
    JNull
  | JBool bool
  | JNum jsnumber
  | JStr jsstring
  | JArr "json list"
  | JObj "(jsstring \<times> json) list"

datatype jsval = Undefined | Val json

text \<open>
  The errors the promise chain can be rejected with: \<open>fetch\<close> rejects, \<open>response.json()\<close>
  rejects, or a handler throws a \<open>TypeError\<close>.
\<close>

datatype jserror = FetchFailed | BodyNotJson | TypeError

datatype outcome = Rejected jserror | Parsed json

text \<open>
  \<^verbatim>\<open>data.response\<close>: reading a property of \<open>null\<close> throws; a primitive or an array has no
  such property; an object has it when a member is so named.
\<close>

fun getResponse :: "json \<Rightarrow> jserror + jsval" where
  "getResponse JNull = Inl TypeError"
| "getResponse (JBool b) = Inr Undefined"
| "getResponse (JNum n) = Inr Undefined"
| "getResponse (JStr s) = Inr Undefined"
| "getResponse (JArr xs) = Inr Undefined"
| "getResponse (JObj members) =
     Inr (case map_of (rev members) (js ''response'') of
            None \<Rightarrow> Undefined
          | Some v \<Rightarrow> Val v)"

text \<open>
  \<^verbatim>\<open>formatMessage(responseText)\<close> starts with \<^verbatim>\<open>text.replace(...)\<close>: only a string has a
  callable \<open>replace\<close>; on \<open>undefined\<close> and \<open>null\<close> the property read throws, on every
  other parsed value the call of a non-function throws.
\<close>

fun callFormatMessage :: "jsval \<Rightarrow> jserror + jsstring" where
  "callFormatMessage (Val (JStr s)) = Inr (formatMessage s)"
| "callFormatMessage Undefined = Inl TypeError"
| "callFormatMessage (Val JNull) = Inl TypeError"
| "callFormatMessage (Val (JBool b)) = Inl TypeError"
| "callFormatMessage (Val (JNum n)) = Inl TypeError"
| "callFormatMessage (Val (JArr xs)) = Inl TypeError"
| "callFormatMessage (Val (JObj members)) = Inl TypeError"

section \<open>The widget state\<close>

text \<open>
  What \<open>document.getElementById\<close> can see of an element: its \<open>id\<close> and, in document order,
  the elements below it that carry an \<open>id\<close> (an element without an \<open>id\<close>, or with an empty
  one, stands for nothing but those of its descendants that have one).
\<close>

datatype element = Element jsstring "element list"

primrec hasId :: "jsstring \<Rightarrow> element \<Rightarrow> bool"
  and hasIdIn :: "jsstring \<Rightarrow> element list \<Rightarrow> bool" where
  "hasId ident (Element i cs) = (i = ident \<or> hasIdIn ident cs)"
| "hasIdIn ident [] = False"
| "hasIdIn ident (c # cs) = (hasId ident c \<or> hasIdIn ident cs)"

text \<open>
  \<open>el.remove()\<close> for the first element in document order with the \<open>id\<close>: the element leaves
  with everything below it.
\<close>

fun removeAt :: "jsstring \<Rightarrow> element \<Rightarrow> element list"
  and removeIn :: "jsstring \<Rightarrow> element list \<Rightarrow> element list" where
  "removeAt ident (Element i cs) = (if i = ident then [] else [Element i (removeIn ident cs)])"
| "removeIn ident [] = []"
| "removeIn ident (c # cs) =
     (if hasId ident c then removeAt ident c @ cs else c # removeIn ident cs)"

text \<open>
  A transcript entry is one child \<open>div\<close> of \<^verbatim>\<open>#chat-messages\<close> with its content \<open>div\<close>:
  the class list, the \<open>id\<close> attribute (when set) and what was assigned to the content,
  \<open>textContent\<close> or \<open>innerHTML\<close>.  \<open>entryNode\<close> is the identity of the DOM node, its number
  in creation order.  \<open>entryInner\<close> are the elements with an \<open>id\<close> below the entry: those
  that the HTML parser built from the markup assigned to \<open>innerHTML\<close>.
\<close>

datatype content = TextContent jsstring | InnerHTML jsstring

record entry =
  entryNode :: nat
  entryClasses :: "jsstring list"
  entryId :: "jsstring option"
  entryContent :: content
  entryInner :: "element list"

text \<open>
  The rest of the document, as the host page has it: the elements that \<^verbatim>\<open>#chat-messages\<close>
  lies in, outermost first, each with its \<open>id\<close> (when it has one), and with the elements
  that carry an \<open>id\<close> among its other descendants, those before the next level in document
  order and those after it.
\<close>

record level =
  levelId :: "jsstring option"
  levelBefore :: "element list"
  levelAfter :: "element list"

record turn =
  role :: jsstring
  parts :: "jsval list"

text \<open>The object literal that \<open>JSON.stringify\<close> serialises when \<open>fetch\<close> is called.\<close>

record payload =
  message :: jsstring
  history :: "turn list"

record request =
  reqUrl :: jsstring
  reqMethod :: jsstring
  reqHeaders :: "(jsstring \<times> jsstring) list"
  reqBody :: payload

text \<open>
  A promise chain that has not finished: it waits for the response, or a rejection is on
  its way to the \<open>catch\<close> handler.  Both closures hold \<open>loadingId\<close>.
\<close>

datatype reaction = OnResponse jsstring | OnRejection jsstring jserror

text \<open>
  \<open>windowClasses\<close> is the class list of \<^verbatim>\<open>#chat-window\<close>, \<open>iconClasses\<close> that of the \<open>i\<close>
  element in the maximize button, \<open>inputValue\<close> is \<^verbatim>\<open>chatInput.value\<close>.
  \<open>scrolledToBottom\<close> records that \<open>scrollTop\<close> was set to \<open>scrollHeight\<close> (layout is not
  modelled).  \<open>transcript\<close> are the children of the element that \<open>chatMessages\<close> refers to,
  \<open>outer\<close> the levels of the document around that element, and \<open>attached\<close> says that the
  element is still in the document.  \<open>markupIds\<close> is the HTML parser of the browser, as
  far as it matters here: the elements with an \<open>id\<close> that it builds from a markup text.
  \<open>requests\<close> are the calls of \<open>fetch\<close>, \<open>consoleErrors\<close> those of \<open>console.error\<close>.
\<close>

record widget =
  windowClasses :: "jsstring list"
  iconClasses :: "jsstring list"
  inputValue :: jsstring
  inputFocused :: bool
  scrolledToBottom :: bool
  outer :: "level list"
  attached :: bool
  transcript :: "entry list"
  markupIds :: "jsstring \<Rightarrow> element list"
  nodesCreated :: nat
  chatHistory :: "turn list"
  requests :: "request list"
  pending :: "reaction list"
  consoleErrors :: "jserror list"

subsection \<open>Class lists\<close>

definition classAdd :: "jsstring \<Rightarrow> jsstring list \<Rightarrow> jsstring list" where
  "classAdd c cs = (if c \<in> set cs then cs else cs @ [c])"

definition classRemove :: "jsstring \<Rightarrow> jsstring list \<Rightarrow> jsstring list" where
  "classRemove c cs = removeAll c cs"

definition classToggle :: "jsstring \<Rightarrow> jsstring list \<Rightarrow> jsstring list" where
  "classToggle c cs = (if c \<in> set cs then removeAll c cs else cs @ [c])"

definition isOpen :: "widget \<Rightarrow> bool" where
  "isOpen st = (js ''d-none'' \<notin> set (windowClasses st))"

definition isMaximized :: "widget \<Rightarrow> bool" where
  "isMaximized st = (js ''maximized'' \<in> set (windowClasses st))"

subsection \<open>Visibility and maximize handlers\<close>

definition scrollToBottom :: "widget \<Rightarrow> widget" where
  "scrollToBottom st = st\<lparr>scrolledToBottom := True\<rparr>"

definition bubbleClick :: "widget \<Rightarrow> widget" where
  "bubbleClick st =
     (let st1 = st\<lparr>windowClasses := classToggle (js ''d-none'') (windowClasses st)\<rparr>
      in if js ''d-none'' \<notin> set (windowClasses st1)
         then scrollToBottom (st1\<lparr>inputFocused := True\<rparr>)
         else st1)"

definition closeClick :: "widget \<Rightarrow> widget" where
  "closeClick st = st\<lparr>windowClasses := classAdd (js ''d-none'') (windowClasses st)\<rparr>"

definition maxClick :: "widget \<Rightarrow> widget" where
  "maxClick st =
     (let st1 = st\<lparr>windowClasses := classToggle (js ''maximized'') (windowClasses st)\<rparr>
      in if js ''maximized'' \<in> set (windowClasses st1)
         then st1\<lparr>iconClasses :=
                classAdd (js ''bi-fullscreen-exit'')
                  (classRemove (js ''bi-arrows-fullscreen'') (iconClasses st1))\<rparr>
         else st1\<lparr>iconClasses :=
                classAdd (js ''bi-arrows-fullscreen'')
                  (classRemove (js ''bi-fullscreen-exit'') (iconClasses st1))\<rparr>)"

subsection \<open>Rendering\<close>

text \<open>
  \<open>createElement\<close> twice, the classes, the content and \<open>chatMessages.appendChild\<close>; \<open>inner\<close>
  are the elements with an \<open>id\<close> that the content holds.
\<close>

definition appendEntry ::
  "jsstring list \<Rightarrow> jsstring option \<Rightarrow> content \<Rightarrow> element list \<Rightarrow> widget \<Rightarrow> widget" where
  "appendEntry cls ident c inner st =
     st\<lparr>transcript := transcript st @
           [\<lparr>entryNode = nodesCreated st, entryClasses = cls, entryId = ident, entryContent = c,
             entryInner = inner\<rparr>],
        nodesCreated := Suc (nodesCreated st)\<rparr>"

text \<open>
  The handle that \<open>addMessage\<close> returns is dropped by every caller.  Text assigned to
  \<open>textContent\<close> makes no element; text assigned to \<open>innerHTML\<close> is parsed.
\<close>

definition addMessage :: "jsstring \<Rightarrow> jsstring \<Rightarrow> bool \<Rightarrow> widget \<Rightarrow> widget" where
  "addMessage text sender isHtml st =
     scrollToBottom
       (appendEntry [js ''message'', sender @ js ''-message''] None
          (if isHtml then InnerHTML text else TextContent text)
          (if isHtml then markupIds st text else []) st)"

text \<open>
  \<open>Date.now()\<close> is an integral number of milliseconds, far below \<open>10^21\<close> in size, so
  its string is the decimal numeral.
\<close>

function decimal :: "nat \<Rightarrow> jsstring" where
  "decimal n = (if n < 10 then [of_nat (48 + n)] else decimal (n div 10) @ [of_nat (48 + n mod 10)])"
  by pat_completeness auto
termination
  by (relation "measure id") auto

definition numberToString :: "int \<Rightarrow> jsstring" where
  "numberToString i = (if i < 0 then hyphen # decimal (nat (- i)) else decimal (nat i))"

definition loadingIdAt :: "int \<Rightarrow> jsstring" where
  "loadingIdAt now = js ''loading-'' @ numberToString now"

definition typingIndicator :: jsstring where
  \<open>typingIndicator = js ''<div class="typing-indicator"><span></span><span></span><span></span></div>''\<close>

text \<open>The markup of the typing indicator has no \<open>id\<close> attribute.\<close>

definition addLoading :: "int \<Rightarrow> widget \<Rightarrow> jsstring \<times> widget" where
  "addLoading now st =
     (loadingIdAt now,
      scrollToBottom
        (appendEntry [js ''message'', js ''bot-message'', js ''loading-msg'']
           (Some (loadingIdAt now)) (InnerHTML typingIndicator) [] st))"

subsection \<open>\<^verbatim>\<open>removeLoading\<close>\<close>

text \<open>
  What \<open>document.getElementById\<close> returns: a reference to an element of the document.
  It is one of the levels around \<^verbatim>\<open>#chat-messages\<close>, that element itself, a transcript
  entry (by position), or the first element with the given \<open>id\<close> among the other
  descendants of a level or below a transcript entry.
\<close>

datatype handle =
    Ancestor nat
  | Before nat jsstring
  | Container
  | Entry nat
  | Inside nat jsstring
  | After nat jsstring

text \<open>
  Document order: a level comes before its descendants; of these, the ones before the
  next level, then the next level with all it holds, then the ones after it.
\<close>

fun findOuter :: "jsstring \<Rightarrow> nat \<Rightarrow> level list \<Rightarrow> handle option" where
  "findOuter ident k [] = None"
| "findOuter ident k (l # ls) =
     (if levelId l = Some ident then Some (Ancestor k)
      else if hasIdIn ident (levelBefore l) then Some (Before k ident)
      else findOuter ident (Suc k) ls)"

fun findEntry :: "jsstring \<Rightarrow> nat \<Rightarrow> entry list \<Rightarrow> handle option" where
  "findEntry ident k [] = None"
| "findEntry ident k (e # es) =
     (if entryId e = Some ident then Some (Entry k)
      else if hasIdIn ident (entryInner e) then Some (Inside k ident)
      else findEntry ident (Suc k) es)"

fun findAfter :: "jsstring \<Rightarrow> nat \<Rightarrow> level list \<Rightarrow> handle option" where
  "findAfter ident k [] = None"
| "findAfter ident k (l # ls) =
     (case findAfter ident (Suc k) ls of
        Some el \<Rightarrow> Some el
      | None \<Rightarrow> if hasIdIn ident (levelAfter l) then Some (After k ident) else None)"

definition findContainer :: "jsstring \<Rightarrow> widget \<Rightarrow> handle option" where
  "findContainer ident st =
     (if \<not> attached st then None
      else if ident = js ''chat-messages'' then Some Container
      else findEntry ident 0 (transcript st))"

text \<open>
  \<open>document.getElementById\<close>: the first element in document order with that \<open>id\<close>, in
  the whole document.
\<close>

definition getElementById :: "jsstring \<Rightarrow> widget \<Rightarrow> handle option" where
  "getElementById ident st =
     (case findOuter ident 0 (outer st) of
        Some el \<Rightarrow> Some el
      | None \<Rightarrow>
          (case findContainer ident st of
             Some el \<Rightarrow> Some el
           | None \<Rightarrow> findAfter ident 0 (outer st)))"

definition dropNth :: "nat \<Rightarrow> 'a list \<Rightarrow> 'a list" where
  "dropNth i xs = take i xs @ drop (Suc i) xs"

text \<open>
  \<open>el.remove()\<close>.  With a level, all that it holds leaves the document, \<^verbatim>\<open>#chat-messages\<close>
  too: \<open>chatMessages\<close> still refers to that element and its children, but the document
  does not hold them any more.
\<close>

fun removeElement :: "handle \<Rightarrow> widget \<Rightarrow> widget" where
  "removeElement (Ancestor k) st = st\<lparr>outer := take k (outer st), attached := False\<rparr>"
| "removeElement (Before k ident) st =
     st\<lparr>outer := (outer st)
           [k := (outer st ! k)\<lparr>levelBefore := removeIn ident (levelBefore (outer st ! k))\<rparr>]\<rparr>"
| "removeElement Container st = st\<lparr>attached := False\<rparr>"
| "removeElement (Entry k) st = st\<lparr>transcript := dropNth k (transcript st)\<rparr>"
| "removeElement (Inside k ident) st =
     st\<lparr>transcript := (transcript st)
           [k := (transcript st ! k)\<lparr>entryInner := removeIn ident (entryInner (transcript st ! k))\<rparr>]\<rparr>"
| "removeElement (After k ident) st =
     st\<lparr>outer := (outer st)
           [k := (outer st ! k)\<lparr>levelAfter := removeIn ident (levelAfter (outer st ! k))\<rparr>]\<rparr>"

definition removeLoading :: "jsstring \<Rightarrow> widget \<Rightarrow> widget" where
  "removeLoading ident st =
     (case getElementById ident st of
        None \<Rightarrow> st
      | Some el \<Rightarrow> removeElement el st)"

subsection \<open>\<^verbatim>\<open>sendMessage\<close>\<close>

definition fetchChat :: "payload \<Rightarrow> widget \<Rightarrow> widget" where
  "fetchChat b st =
     st\<lparr>requests := requests st @
           [\<lparr>reqUrl = js ''/chat'', reqMethod = js ''POST'',
             reqHeaders = [(js ''Content-Type'', js ''application/json'')],
             reqBody = b\<rparr>]\<rparr>"

text \<open>
  The synchronous part of \<^verbatim>\<open>sendMessage\<close>, at clock reading \<open>now\<close>: up to the call of
  \<open>fetch\<close>, which leaves the promise chain waiting.
\<close>

definition sendMessage :: "int \<Rightarrow> widget \<Rightarrow> widget" where
  "sendMessage now st =
     (let msg = trim (inputValue st) in
      if msg = [] then st
      else
        let st1 = addMessage msg (js ''user'') False st;
            st2 = st1\<lparr>inputValue := []\<rparr>;
            st3 = st2\<lparr>chatHistory := chatHistory st2 @ [\<lparr>role = js ''user'', parts = [Val (JStr msg)]\<rparr>]\<rparr>;
            (loadingId, st4) = addLoading now st3;
            st5 = fetchChat \<lparr>message = msg, history = chatHistory st4\<rparr> st4
        in st5\<lparr>pending := pending st5 @ [OnResponse loadingId]\<rparr>)"

text \<open>
  The handler \<^verbatim>\<open>data => {...}\<close>.  It returns the state it leaves and the error it threw,
  if any: what it did before throwing stays done.
\<close>

definition onData :: "jsstring \<Rightarrow> json \<Rightarrow> widget \<Rightarrow> widget \<times> jserror option" where
  "onData loadingId data st =
     (let st1 = removeLoading loadingId st in
      case getResponse data of
        Inl e \<Rightarrow> (st1, Some e)
      | Inr responseText \<Rightarrow>
          (let st2 = st1\<lparr>chatHistory := chatHistory st1 @ [\<lparr>role = js ''model'', parts = [responseText]\<rparr>]\<rparr>
           in (case callFormatMessage responseText of
                 Inl e \<Rightarrow> (st2, Some e)
               | Inr formatted \<Rightarrow> (addMessage formatted (js ''bot'') True st2, None))))"

definition apology :: jsstring where
  "apology = js ''Sorry, something went wrong. Please try again.''"

text \<open>The handler \<^verbatim>\<open>error => {...}\<close>; it returns normally.\<close>

definition onError :: "jsstring \<Rightarrow> jserror \<Rightarrow> widget \<Rightarrow> widget" where
  "onError loadingId err st =
     (let st1 = removeLoading loadingId st;
          st2 = addMessage apology (js ''bot'') False st1
      in st2\<lparr>consoleErrors := consoleErrors st2 @ [err]\<rparr>)"

subsection \<open>Events\<close>

text \<open>
  What the event loop can run: the three click handlers, an edit of the input field,
  \<^verbatim>\<open>sendMessage\<close> (the send button, or the Enter key) at a clock reading, the settling of
  a waiting \<open>fetch\<close>, and a queued \<open>catch\<close> reaction.  A rejection reaches the \<open>catch\<close>
  handler in a later microtask, so reactions of other chains can run in between.
\<close>

datatype event =
    BubbleClick
  | CloseClick
  | MaxClick
  | Edit jsstring
  | Send int
  | Settle nat outcome
  | Catch nat

definition settle :: "nat \<Rightarrow> outcome \<Rightarrow> widget \<Rightarrow> widget" where
  "settle i out st =
     (if i < length (pending st) then
        (case pending st ! i of
           OnRejection loadingId e \<Rightarrow> st
         | OnResponse loadingId \<Rightarrow>
             (let st1 = st\<lparr>pending := dropNth i (pending st)\<rparr> in
              case out of
                Rejected e \<Rightarrow> st1\<lparr>pending := pending st1 @ [OnRejection loadingId e]\<rparr>
              | Parsed data \<Rightarrow>
                  (case onData loadingId data st1 of
                     (st2, None) \<Rightarrow> st2
                   | (st2, Some e) \<Rightarrow> st2\<lparr>pending := pending st2 @ [OnRejection loadingId e]\<rparr>)))
      else st)"

definition runCatch :: "nat \<Rightarrow> widget \<Rightarrow> widget" where
  "runCatch i st =
     (if i < length (pending st) then
        (case pending st ! i of
           OnResponse loadingId \<Rightarrow> st
         | OnRejection loadingId e \<Rightarrow> onError loadingId e (st\<lparr>pending := dropNth i (pending st)\<rparr>))
      else st)"

fun step :: "event \<Rightarrow> widget \<Rightarrow> widget" where
  "step BubbleClick st = bubbleClick st"
| "step CloseClick st = closeClick st"
| "step MaxClick st = maxClick st"
| "step (Edit s) st = st\<lparr>inputValue := s\<rparr>"
| "step (Send now) st = sendMessage now st"
| "step (Settle i out) st = settle i out st"
| "step (Catch i) st = runCatch i st"

definition run :: "event list \<Rightarrow> widget \<Rightarrow> widget" where
  "run es st = fold step es st"

text \<open>
  The state when the \<open>DOMContentLoaded\<close> handler has run: the history is empty and the
  maximize icon shows \<^verbatim>\<open>bi-arrows-fullscreen\<close>.  The host document, which is not part
  of the sources, gives the rest: the panel's classes, the input's value, what the
  transcript already holds and the document around it.
\<close>

definition initial :: "widget \<Rightarrow> bool" where
  "initial st =
     (chatHistory st = [] \<and> requests st = [] \<and> pending st = [] \<and> consoleErrors st = [] \<and>
      iconClasses st = [js ''bi'', js ''bi-arrows-fullscreen''])"

inductive reachable :: "widget \<Rightarrow> bool" where
  reach_initial: "initial st \<Longrightarrow> reachable st"
| reach_step: "reachable st \<Longrightarrow> reachable (step e st)"

text \<open>
  A host document for the examples: the bubble, and the panel with the close button, the
  message list, the input field and the send button.
\<close>

definition hostDocument :: "level list" where
  "hostDocument =
     [\<lparr>levelId = None, levelBefore = [Element (js ''chat-bubble'') []], levelAfter = []\<rparr>,
      \<lparr>levelId = Some (js ''chat-window''), levelBefore = [Element (js ''close-chat'') []],
       levelAfter = [Element (js ''chat-input'') [], Element (js ''send-btn'') []]\<rparr>]"

text \<open>
  A parser for the examples that finds no \<open>id\<close>: it is right for every text without an
  \<open>id\<close> attribute, which is all that the examples below render through \<open>innerHTML\<close>.
\<close>

definition noIds :: "jsstring \<Rightarrow> element list" where
  "noIds markup = []"

text \<open>
  A state right after loading, for that host document, with the panel hidden and the
  transcript and the input field empty.
\<close>

definition loaded :: widget where
  "loaded =
     \<lparr>windowClasses = [js ''chat-window'', js ''d-none''],
      iconClasses = [js ''bi'', js ''bi-arrows-fullscreen''],
      inputValue = [], inputFocused = False, scrolledToBottom = False,
      outer = hostDocument, attached = True,
      transcript = [], markupIds = noIds, nodesCreated = 0, chatHistory = [], requests = [],
      pending = [], consoleErrors = []\<rparr>"

text \<open>
  The same, for a host document whose panel has the class \<open>maximized\<close> from the start.
\<close>

definition maxLoaded :: widget where
  "maxLoaded = loaded\<lparr>windowClasses := [js ''chat-window'', js ''d-none'', js ''maximized'']\<rparr>"

subsection \<open>Observations used in the properties\<close>

text \<open>
  The maximize icon agrees with the layout flag: the icon's class list is the one that
  the last run of the maximize handler left for that flag (for a panel that was not
  maximized when the page loaded, the one the button was created with).
\<close>

definition iconConsistent :: "widget \<Rightarrow> bool" where
  "iconConsistent st =
     (iconClasses st =
        (if isMaximized st then [js ''bi'', js ''bi-fullscreen-exit'']
         else [js ''bi'', js ''bi-arrows-fullscreen'']))"

definition wellShaped :: "turn \<Rightarrow> bool" where
  "wellShaped t = ((role t = js ''user'' \<or> role t = js ''model'') \<and> length (parts t) = 1)"


definition mark :: "jsstring \<Rightarrow> jsstring" where
  "mark s = (case s of [] \<Rightarrow> [asterisk] | b # r \<Rightarrow> if b = asterisk then s else asterisk # s)"


text \<open>
  \<open>awaitsSpace s\<close> says that the scan of the bullet pass, as in \<open>bullets\<close>, reaches the end
  of \<open>s\<close> inside a match that has its hyphen and lacks only the white-space code unit
  after it: \<open>s\<close> ends in a line of optional white space and a hyphen, and the scan comes
  to the newline before that line (or to one before it with only white space between).
  What follows \<open>s\<close> then decides the match: a newline there is taken as that code unit.
\<close>

function awaitsSpace :: "jsstring \<Rightarrow> bool" where
  "awaitsSpace (a # t) =
     (if a = newline then
        (case dropWhile isSpace t of
           [] \<Rightarrow> awaitsSpace t
         | [h] \<Rightarrow> h = hyphen \<or> awaitsSpace t
         | h # w # r \<Rightarrow> if h = hyphen \<and> isSpace w then awaitsSpace r else awaitsSpace t)
      else awaitsSpace t)"
| "awaitsSpace [] = False"
  by pat_completeness auto
termination
  by (relation "measure length") (auto dest: dropWhile_rest_shorter)

text \<open>
  Transcript entries as the three rendering paths build them, from content without an
  \<open>id\<close> of its own.
\<close>

definition userEntry :: "nat \<Rightarrow> jsstring \<Rightarrow> entry" where
  "userEntry n text =
     \<lparr>entryNode = n, entryClasses = [js ''message'', js ''user-message''], entryId = None,
      entryContent = TextContent text, entryInner = []\<rparr>"

definition botEntry :: "nat \<Rightarrow> content \<Rightarrow> entry" where
  "botEntry n c =
     \<lparr>entryNode = n, entryClasses = [js ''message'', js ''bot-message''], entryId = None,
      entryContent = c, entryInner = []\<rparr>"

definition placeholder :: "nat \<Rightarrow> jsstring \<Rightarrow> entry" where
  "placeholder n ident =
     \<lparr>entryNode = n, entryClasses = [js ''message'', js ''bot-message'', js ''loading-msg''],
      entryId = Some ident, entryContent = InnerHTML typingIndicator, entryInner = []\<rparr>"

text \<open>
  Two states for examples: one exchange outstanding; and two exchanges outstanding whose
  calls of \<^verbatim>\<open>sendMessage\<close> read the same value of the clock.
\<close>

definition waiting :: widget where
  "waiting = run [Edit (js ''hi''), Send 1700000000000] loaded"

definition twoWaiting :: widget where
  "twoWaiting =
     run [Edit (js ''a''), Send 1700000000000, Edit (js ''b''), Send 1700000000000] loaded"

section \<open>Properties of \<^verbatim>\<open>sendMessage\<close>\<close>

lemmas char_simps = js_def ch_def isSpace_def isWhiteSpace_def isLineTerminator_def

lemma all_dropWhile: "(\<forall>x\<in>set (dropWhile P s). P x) \<longleftrightarrow> (\<forall>x\<in>set s. P x)"
  by (induction s) auto

text \<open>The trimmed text is empty exactly for the empty and the space-only inputs.\<close>

lemma trim_blank: "trim s = [] \<longleftrightarrow> (\<forall>c\<in>set s. isSpace c)"
  by (simp add: trim_def dropWhile_eq_Nil_conv all_dropWhile)

text \<open>
  C1.  When the trimmed input is not empty, \<^verbatim>\<open>sendMessage\<close> appends exactly one turn
  \<open>{role: "user", parts: [trimmed text]}\<close> to the history and issues exactly one request:
  a POST to \<^verbatim>\<open>/chat\<close> with the header \<open>Content-Type: application/json\<close>, whose body has
  the trimmed text as \<open>message\<close> and, as \<open>history\<close>, the history with the new user turn
  at its end (so the turn was appended before the request was issued).
\<close>

theorem sendMessage_request:
  assumes "trim (inputValue st) \<noteq> []"
  shows "chatHistory (sendMessage now st) =
           chatHistory st @ [\<lparr>role = js ''user'', parts = [Val (JStr (trim (inputValue st)))]\<rparr>]
       \<and> requests (sendMessage now st) =
           requests st @
             [\<lparr>reqUrl = js ''/chat'', reqMethod = js ''POST'',
               reqHeaders = [(js ''Content-Type'', js ''application/json'')],
               reqBody = \<lparr>message = trim (inputValue st),
                          history = chatHistory st @
                            [\<lparr>role = js ''user'', parts = [Val (JStr (trim (inputValue st)))]\<rparr>]\<rparr>\<rparr>]"
  using assms
  by (simp add: sendMessage_def Let_def addLoading_def addMessage_def appendEntry_def
        scrollToBottom_def fetchChat_def)

theorem sendMessage_request_witness:
  "trim (js ''  hi '') = js ''hi''
   \<and> chatHistory (sendMessage 1700000000000 (loaded\<lparr>inputValue := js ''  hi ''\<rparr>)) =
       [\<lparr>role = js ''user'', parts = [Val (JStr (js ''hi''))]\<rparr>]
   \<and> requests (sendMessage 1700000000000 (loaded\<lparr>inputValue := js ''  hi ''\<rparr>)) =
       [\<lparr>reqUrl = js ''/chat'', reqMethod = js ''POST'',
         reqHeaders = [(js ''Content-Type'', js ''application/json'')],
         reqBody = \<lparr>message = js ''hi'',
                    history = [\<lparr>role = js ''user'', parts = [Val (JStr (js ''hi''))]\<rparr>]\<rparr>\<rparr>]"
proof -
  have t: "trim (inputValue (loaded\<lparr>inputValue := js ''  hi ''\<rparr>)) = js ''hi''"
    by (simp add: trim_def char_simps)
  have n: "trim (inputValue (loaded\<lparr>inputValue := js ''  hi ''\<rparr>)) \<noteq> []"
    unfolding t by (simp add: js_def)
  have h: "chatHistory (loaded\<lparr>inputValue := js ''  hi ''\<rparr>) = []"
          "requests (loaded\<lparr>inputValue := js ''  hi ''\<rparr>) = []"
    by (simp_all add: loaded_def)
  from sendMessage_request [OF n, of 1700000000000] t h show ?thesis by simp
qed

text \<open>
  C5.  When the trimmed input is empty (the input is empty or holds space code units
  only), \<^verbatim>\<open>sendMessage\<close> returns at once: the whole state, with the transcript, the
  history, the input field, the requests issued and the errors logged, is as before.
\<close>

theorem sendMessage_blank_noop:
  "trim (inputValue st) = [] \<Longrightarrow> sendMessage now st = st"
  by (simp add: sendMessage_def)

theorem sendMessage_blank_noop_witness:
  "trim (js '' \<newline>  '') = []
   \<and> sendMessage 1700000000000 (loaded\<lparr>inputValue := js '' \<newline>  ''\<rparr>) =
       loaded\<lparr>inputValue := js '' \<newline>  ''\<rparr>"
proof -
  have t: "trim (inputValue (loaded\<lparr>inputValue := js '' \<newline>  ''\<rparr>)) = []"
    by (simp add: trim_def char_simps)
  from sendMessage_blank_noop [OF t] t show ?thesis by simp
qed

section \<open>Completion of an exchange\<close>

text \<open>\<^verbatim>\<open>removeLoading\<close> touches the document only.\<close>

lemma removeElement_fields [simp]:
  "chatHistory (removeElement el st) = chatHistory st"
  "nodesCreated (removeElement el st) = nodesCreated st"
  "pending (removeElement el st) = pending st"
  "consoleErrors (removeElement el st) = consoleErrors st"
  "requests (removeElement el st) = requests st"
  "markupIds (removeElement el st) = markupIds st"
  "windowClasses (removeElement el st) = windowClasses st"
  "iconClasses (removeElement el st) = iconClasses st"
  by (cases el; simp)+

lemma removeLoading_fields [simp]:
  "chatHistory (removeLoading l st) = chatHistory st"
  "nodesCreated (removeLoading l st) = nodesCreated st"
  "pending (removeLoading l st) = pending st"
  "consoleErrors (removeLoading l st) = consoleErrors st"
  "requests (removeLoading l st) = requests st"
  "markupIds (removeLoading l st) = markupIds st"
  "windowClasses (removeLoading l st) = windowClasses st"
  "iconClasses (removeLoading l st) = iconClasses st"
  by (simp_all add: removeLoading_def split: option.splits)

lemma addMessage_bot:
  "addMessage text (js ''bot'') isHtml st =
     st\<lparr>transcript := transcript st @
           [\<lparr>entryNode = nodesCreated st, entryClasses = [js ''message'', js ''bot-message''],
             entryId = None,
             entryContent = (if isHtml then InnerHTML text else TextContent text),
             entryInner = (if isHtml then markupIds st text else [])\<rparr>],
        nodesCreated := Suc (nodesCreated st), scrolledToBottom := True\<rparr>"
  by (simp add: addMessage_def appendEntry_def scrollToBottom_def js_def)

text \<open>
  The lookup goes by document order through everything the document holds: an element
  with the identifier inside the markup of an earlier entry is found before a later
  placeholder, and it is that element which is removed.
\<close>

lemma removeLoading_inner_first:
  assumes "attached st" and "findOuter l 0 (outer st) = None" and "l \<noteq> js ''chat-messages''"
      and "transcript st = [e, p]"
      and "entryId e = None" and "entryInner e = [Element l []]" and "entryId p = Some l"
  shows "transcript (removeLoading l st) = [e\<lparr>entryInner := []\<rparr>, p]"
  using assms by (simp add: removeLoading_def getElementById_def findContainer_def)

section \<open>Visibility and maximize controls\<close>

lemma classToggle_mem: "c \<in> set (classToggle c cs) \<longleftrightarrow> c \<notin> set cs"
  by (auto simp: classToggle_def)

lemma bubbleClick_isOpen: "isOpen (bubbleClick st) = (\<not> isOpen st)"
  by (simp add: bubbleClick_def isOpen_def Let_def scrollToBottom_def classToggle_mem)

lemma maxClick_isMaximized: "isMaximized (maxClick st) = (\<not> isMaximized st)"
  by (simp add: maxClick_def isMaximized_def Let_def classToggle_mem)

lemma icon_names:
  "js ''bi-fullscreen-exit'' \<noteq> js ''bi-arrows-fullscreen''"
  "js ''bi'' \<noteq> js ''bi-arrows-fullscreen''"
  "js ''bi'' \<noteq> js ''bi-fullscreen-exit''"
  by (simp_all add: js_def)

lemma maxClick_icon: "iconConsistent st \<Longrightarrow> iconConsistent (maxClick st)"
  using icon_names
  by (auto simp: iconConsistent_def maxClick_isMaximized)
     (auto simp: maxClick_def isMaximized_def Let_def classToggle_mem classAdd_def classRemove_def)

lemma closeClick_twice: "closeClick (closeClick st) = closeClick st"
  by (simp add: closeClick_def classAdd_def)

lemma closeClick_closed: "\<not> isOpen (closeClick st)"
  by (simp add: closeClick_def classAdd_def isOpen_def)

text \<open>
  The agreement of icon and flag holds after loading when the host document's panel is
  not maximized, and every event keeps it.
\<close>

lemma initial_iconConsistent: "initial st \<Longrightarrow> \<not> isMaximized st \<Longrightarrow> iconConsistent st"
  by (simp add: initial_def iconConsistent_def)

lemma iconConsistent_cong:
  "set (windowClasses st') \<inter> {js ''maximized''} = set (windowClasses st) \<inter> {js ''maximized''} \<Longrightarrow>
   iconClasses st' = iconClasses st \<Longrightarrow> iconConsistent st' = iconConsistent st"
  by (auto simp: iconConsistent_def isMaximized_def)

lemma class_names: "js ''d-none'' \<noteq> js ''maximized''"
  by (simp add: js_def)

lemma bubbleClick_iconConsistent: "iconConsistent (bubbleClick st) = iconConsistent st"
  using class_names
  by (intro iconConsistent_cong)
     (auto simp: bubbleClick_def Let_def scrollToBottom_def classToggle_def)

lemma closeClick_iconConsistent: "iconConsistent (closeClick st) = iconConsistent st"
  using class_names
  by (intro iconConsistent_cong) (auto simp: closeClick_def classAdd_def)

lemma sendMessage_iconConsistent: "iconConsistent (sendMessage now st) = iconConsistent st"
  by (intro iconConsistent_cong)
     (simp_all add: sendMessage_def Let_def addLoading_def addMessage_def appendEntry_def
        scrollToBottom_def fetchChat_def)

lemma onData_iconConsistent: "iconConsistent (fst (onData l d st)) = iconConsistent st"
  by (intro iconConsistent_cong)
     (simp_all add: onData_def Let_def addMessage_def appendEntry_def scrollToBottom_def
        split: sum.splits)

lemma onError_iconConsistent: "iconConsistent (onError l e st) = iconConsistent st"
  by (intro iconConsistent_cong)
     (simp_all add: onError_def Let_def addMessage_def appendEntry_def scrollToBottom_def)

lemma pending_iconConsistent: "iconConsistent (st\<lparr>pending := ps\<rparr>) = iconConsistent st"
  by (simp add: iconConsistent_def isMaximized_def)

lemma settle_iconConsistent: "iconConsistent (settle i out st) = iconConsistent st"
proof -
  let ?st1 = "st\<lparr>pending := dropNth i (pending st)\<rparr>"
  have "iconConsistent (case onData l d ?st1 of
      (st2, None) \<Rightarrow> st2
    | (st2, Some e) \<Rightarrow> st2\<lparr>pending := pending st2 @ [OnRejection l e]\<rparr>) = iconConsistent st" for l d
  proof -
    obtain st2 r where od: "onData l d ?st1 = (st2, r)"
      by (cases "onData l d ?st1")
    have "iconConsistent st2 = iconConsistent st"
      using onData_iconConsistent [of l d ?st1] od by (simp add: pending_iconConsistent)
    then show ?thesis
      using od by (cases r) (simp_all add: pending_iconConsistent)
  qed
  then show ?thesis
    by (simp add: settle_def Let_def pending_iconConsistent split: reaction.splits outcome.splits)
qed

lemma runCatch_iconConsistent: "iconConsistent (runCatch i st) = iconConsistent st"
  by (simp add: runCatch_def onError_iconConsistent pending_iconConsistent split: reaction.splits)

lemma step_iconConsistent:
  assumes "iconConsistent st"
  shows "iconConsistent (step e st)"
proof (cases e)
  case (Edit s)
  with assms show ?thesis by (simp add: iconConsistent_def isMaximized_def)
next
  case MaxClick
  with assms show ?thesis by (simp add: maxClick_icon)
qed (use assms in \<open>simp_all add: bubbleClick_iconConsistent closeClick_iconConsistent
       sendMessage_iconConsistent settle_iconConsistent runCatch_iconConsistent\<close>)

lemma run_iconConsistent: "iconConsistent st \<Longrightarrow> iconConsistent (run es st)"
proof (induction es arbitrary: st)
  case Nil
  then show ?case by (simp add: run_def)
next
  case (Cons e es)
  from Cons.prems have "iconConsistent (step e st)" by (rule step_iconConsistent)
  then have "iconConsistent (run es (step e st))" by (rule Cons.IH)
  then show ?case by (simp add: run_def)
qed

text \<open>
  Against C8 as stated: when the host document starts the panel maximized, the icon the
  button was created with does not agree with the layout flag.  Two runs of the maximize
  handler return the flag to maximized, but the icon goes from \<^verbatim>\<open>bi-arrows-fullscreen\<close>
  to \<^verbatim>\<open>bi-fullscreen-exit\<close>.
\<close>

theorem icon_not_restored:
  "initial maxLoaded
   \<and> isMaximized maxLoaded
   \<and> iconClasses maxLoaded = [js ''bi'', js ''bi-arrows-fullscreen'']
   \<and> isMaximized (maxClick (maxClick maxLoaded))
   \<and> iconClasses (maxClick (maxClick maxLoaded)) = [js ''bi'', js ''bi-fullscreen-exit'']"
  by (simp add: initial_def maxLoaded_def loaded_def isMaximized_def maxClick_def Let_def
        classToggle_def classAdd_def classRemove_def js_def)

text \<open>
  C8 (as amended).  Two runs of the bubble's click handler return the panel to the
  visibility it had (so from closed back to closed); two runs of the maximize handler
  return the layout flag to what it was, in every state, and the icon's class list as
  well in every state whose icon agrees with the flag; that agreement holds in every
  state reached by any events from a freshly loaded page whose panel is not maximized;
  the close handler run twice leaves the state of its first run, which is closed.
\<close>

theorem toggles_self_inverse:
  "isOpen (bubbleClick (bubbleClick st)) = isOpen st
   \<and> isMaximized (maxClick (maxClick st)) = isMaximized st
   \<and> (iconConsistent st \<longrightarrow> iconClasses (maxClick (maxClick st)) = iconClasses st)
   \<and> (initial st0 \<and> \<not> isMaximized st0 \<longrightarrow> iconConsistent (run es st0))
   \<and> closeClick (closeClick st) = closeClick st
   \<and> \<not> isOpen (closeClick st)"
proof -
  have "iconClasses (maxClick (maxClick st)) = iconClasses st" if c: "iconConsistent st"
  proof -
    from c have "iconConsistent (maxClick (maxClick st))"
      by (intro maxClick_icon)
    with c show ?thesis
      by (simp add: iconConsistent_def maxClick_isMaximized)
  qed
  moreover have "iconConsistent (run es st0)" if "initial st0" "\<not> isMaximized st0"
    using that by (intro run_iconConsistent initial_iconConsistent)
  ultimately show ?thesis
    by (simp add: bubbleClick_isOpen maxClick_isMaximized closeClick_twice closeClick_closed)
qed

theorem toggles_self_inverse_witness:
  "initial loaded \<and> \<not> isMaximized loaded
   \<and> iconConsistent (run [BubbleClick, MaxClick] loaded)
   \<and> isOpen (run [BubbleClick, MaxClick] loaded)
   \<and> isOpen (bubbleClick (bubbleClick (run [BubbleClick, MaxClick] loaded)))
   \<and> isMaximized (run [BubbleClick, MaxClick] loaded)
   \<and> isMaximized (maxClick (maxClick (run [BubbleClick, MaxClick] loaded)))
   \<and> iconClasses (run [BubbleClick, MaxClick] loaded) = [js ''bi'', js ''bi-fullscreen-exit'']
   \<and> iconClasses (maxClick (run [BubbleClick, MaxClick] loaded)) =
       [js ''bi'', js ''bi-arrows-fullscreen'']
   \<and> iconClasses (maxClick (maxClick (run [BubbleClick, MaxClick] loaded))) =
       [js ''bi'', js ''bi-fullscreen-exit'']
   \<and> \<not> isOpen (closeClick (run [BubbleClick, MaxClick] loaded))"
proof -
  let ?st = "run [BubbleClick, MaxClick] loaded"
  have i: "initial loaded" and m: "\<not> isMaximized loaded"
    by (simp_all add: initial_def loaded_def isMaximized_def js_def)
  have w: "windowClasses ?st = [js ''chat-window'', js ''maximized'']"
          "iconClasses ?st = [js ''bi'', js ''bi-fullscreen-exit'']"
    by (simp_all add: run_def bubbleClick_def maxClick_def Let_def scrollToBottom_def
          classToggle_def classAdd_def classRemove_def loaded_def js_def)
  have x: "iconClasses (maxClick ?st) = [js ''bi'', js ''bi-arrows-fullscreen'']"
    by (simp add: maxClick_def Let_def classToggle_def classAdd_def classRemove_def w)
       (simp add: js_def)
  have o: "isOpen ?st" "isMaximized ?st"
    by (simp_all add: isOpen_def isMaximized_def w) (simp add: js_def)
  from toggles_self_inverse [of ?st loaded "[BubbleClick, MaxClick]"] i m w x o
  show ?thesis by simp
qed

lemmas eval_simps = run_def sendMessage_def Let_def trim_def char_simps addMessage_def
  appendEntry_def scrollToBottom_def addLoading_def fetchChat_def settle_def runCatch_def
  dropNth_def onData_def onError_def removeLoading_def getElementById_def findContainer_def
  loadingIdAt_def numberToString_def loaded_def hostDocument_def noIds_def userEntry_def
  botEntry_def placeholder_def

lemma waiting_fields:
  "transcript waiting = [userEntry 0 (js ''hi''), placeholder 1 (js ''loading-1700000000000'')]"
  "pending waiting = [OnResponse (js ''loading-1700000000000'')]"
  "chatHistory waiting = [\<lparr>role = js ''user'', parts = [Val (JStr (js ''hi''))]\<rparr>]"
  "nodesCreated waiting = 2"
  "consoleErrors waiting = []"
  "outer waiting = hostDocument"
  "attached waiting"
  by (simp_all add: waiting_def eval_simps)

text \<open>
  C2.  The postcondition fails on the code.  Two calls of \<^verbatim>\<open>sendMessage\<close> read the same
  value of the clock, so both placeholders carry the same \<open>id\<close>: after the first call
  the transcript holds the first placeholder, node 1, and after the second call also
  the second one, node 3.  The response to the second call is handled first (the
  reaction at index 1).  Then \<^verbatim>\<open>removeLoading\<close> finds the first call's placeholder: the
  model turn is appended and the response is rendered, as node 4, but the placeholder
  created for this call, node 3, is still in the transcript.
\<close>

theorem placeholder_collision:
  "transcript (run [Edit (js ''a''), Send 1700000000000] loaded) =
     [userEntry 0 (js ''a''), placeholder 1 (js ''loading-1700000000000'')]
   \<and> transcript twoWaiting =
     [userEntry 0 (js ''a''), placeholder 1 (js ''loading-1700000000000''),
      userEntry 2 (js ''b''), placeholder 3 (js ''loading-1700000000000'')]
   \<and> transcript (settle 1 (Parsed (JObj [(js ''response'', JStr (js ''hi''))])) twoWaiting) =
     [userEntry 0 (js ''a''), userEntry 2 (js ''b''), placeholder 3 (js ''loading-1700000000000''),
      botEntry 4 (InnerHTML (js ''hi''))]
   \<and> chatHistory (settle 1 (Parsed (JObj [(js ''response'', JStr (js ''hi''))])) twoWaiting) =
     [\<lparr>role = js ''user'', parts = [Val (JStr (js ''a''))]\<rparr>,
      \<lparr>role = js ''user'', parts = [Val (JStr (js ''b''))]\<rparr>,
      \<lparr>role = js ''model'', parts = [Val (JStr (js ''hi''))]\<rparr>]
   \<and> pending (settle 1 (Parsed (JObj [(js ''response'', JStr (js ''hi''))])) twoWaiting) =
     [OnResponse (js ''loading-1700000000000'')]"
  by (simp add: twoWaiting_def eval_simps formatMessage_def lineBreaks_def)

lemma removeElement_pending:
  "transcript (removeElement el (st\<lparr>pending := ps\<rparr>)) = transcript (removeElement el st)"
  by (cases el) simp_all

lemma removeLoading_pending:
  "transcript (removeLoading l (st\<lparr>pending := ps\<rparr>)) = transcript (removeLoading l st)"
  by (simp add: removeLoading_def getElementById_def findContainer_def removeElement_pending
        split: option.splits)

lemma onError_eq:
  "onError l err st =
     (removeLoading l st)
       \<lparr>transcript := transcript (removeLoading l st) @
           [botEntry (nodesCreated st) (TextContent apology)],
        nodesCreated := Suc (nodesCreated st), scrolledToBottom := True,
        consoleErrors := consoleErrors st @ [err]\<rparr>"
  by (simp add: onError_def Let_def addMessage_bot botEntry_def)

text \<open>
  C3.  The postcondition fails on the code.  Two calls of \<^verbatim>\<open>sendMessage\<close> read the same
  value of the clock, so both placeholders, nodes 1 and 3, carry the same \<open>id\<close>.  The
  request of the second call fails (the reaction at index 1); its rejection is queued
  and the \<open>catch\<close> reaction runs.  \<^verbatim>\<open>removeLoading\<close> finds the first call's placeholder,
  node 1: the apology is rendered as plain text, as node 4, the history is as before and
  the error is logged, but the placeholder created for the failed call, node 3, is still
  in the transcript.
\<close>

theorem failure_collision:
  "transcript (run [Edit (js ''a''), Send 1700000000000] loaded) =
     [userEntry 0 (js ''a''), placeholder 1 (js ''loading-1700000000000'')]
   \<and> transcript twoWaiting =
     [userEntry 0 (js ''a''), placeholder 1 (js ''loading-1700000000000''),
      userEntry 2 (js ''b''), placeholder 3 (js ''loading-1700000000000'')]
   \<and> pending (settle 1 (Rejected FetchFailed) twoWaiting) =
     [OnResponse (js ''loading-1700000000000''),
      OnRejection (js ''loading-1700000000000'') FetchFailed]
   \<and> transcript (runCatch 1 (settle 1 (Rejected FetchFailed) twoWaiting)) =
     [userEntry 0 (js ''a''), userEntry 2 (js ''b''), placeholder 3 (js ''loading-1700000000000''),
      botEntry 4 (TextContent (js ''Sorry, something went wrong. Please try again.''))]
   \<and> chatHistory (runCatch 1 (settle 1 (Rejected FetchFailed) twoWaiting)) =
     [\<lparr>role = js ''user'', parts = [Val (JStr (js ''a''))]\<rparr>,
      \<lparr>role = js ''user'', parts = [Val (JStr (js ''b''))]\<rparr>]
   \<and> consoleErrors (runCatch 1 (settle 1 (Rejected FetchFailed) twoWaiting)) = [FetchFailed]
   \<and> pending (runCatch 1 (settle 1 (Rejected FetchFailed) twoWaiting)) =
     [OnResponse (js ''loading-1700000000000'')]"
  by (simp add: twoWaiting_def eval_simps apology_def)

text \<open>
  C4.  The invariant fails on the code.  For a body that parses but has no string
  \<open>response\<close>, here \<^verbatim>\<open>{"error": "quota"}\<close>, the handler appends a model turn whose one part
  is \<open>undefined\<close>, then \<^verbatim>\<open>formatMessage\<close> throws, and the \<open>catch\<close> handler renders the
  apology and logs a \<open>TypeError\<close>: the exchange has failed and has left a model turn.
  For the body \<^verbatim>\<open>null\<close>, which parses as well, reading \<open>data.response\<close> throws before the
  push: the apology is rendered and no model turn is appended.
\<close>

theorem failed_exchange_leaves_model_turn:
  "chatHistory (runCatch 0 (settle 0 (Parsed (JObj [(js ''error'', JStr (js ''quota''))])) waiting)) =
     [\<lparr>role = js ''user'', parts = [Val (JStr (js ''hi''))]\<rparr>,
      \<lparr>role = js ''model'', parts = [Undefined]\<rparr>]
   \<and> transcript (runCatch 0 (settle 0 (Parsed (JObj [(js ''error'', JStr (js ''quota''))])) waiting)) =
     [userEntry 0 (js ''hi''),
      botEntry 2 (TextContent (js ''Sorry, something went wrong. Please try again.''))]
   \<and> consoleErrors (runCatch 0 (settle 0 (Parsed (JObj [(js ''error'', JStr (js ''quota''))])) waiting)) =
     [TypeError]
   \<and> chatHistory (runCatch 0 (settle 0 (Parsed JNull) waiting)) =
     [\<lparr>role = js ''user'', parts = [Val (JStr (js ''hi''))]\<rparr>]
   \<and> transcript (runCatch 0 (settle 0 (Parsed JNull) waiting)) =
     [userEntry 0 (js ''hi''),
      botEntry 2 (TextContent (js ''Sorry, something went wrong. Please try again.''))]"
  by (simp add: waiting_def eval_simps apology_def)

text \<open>
  Against C9 as stated: for the body \<^verbatim>\<open>{}\<close> the transcript ends with the apology as plain
  text; no entry shows \<open>undefined\<close> or an empty reply.
\<close>

theorem missing_response_not_rendered:
  "map entryContent (transcript (runCatch 0 (settle 0 (Parsed (JObj [])) waiting))) =
     [TextContent (js ''hi''),
      TextContent (js ''Sorry, something went wrong. Please try again.'')]
   \<and> InnerHTML (js ''undefined'') \<notin>
       entryContent ` set (transcript (runCatch 0 (settle 0 (Parsed (JObj [])) waiting)))
   \<and> InnerHTML [] \<notin>
       entryContent ` set (transcript (runCatch 0 (settle 0 (Parsed (JObj [])) waiting)))"
  by (simp add: waiting_def eval_simps apology_def)

text \<open>
  The parsed bodies that lack a \<open>response\<close> field: every value but \<open>null\<close> that is not an
  object with a member of that name.
\<close>

lemma getResponse_undefined:
  "getResponse data = Inr Undefined \<longleftrightarrow>
     data \<noteq> JNull \<and> (\<forall>members. data = JObj members \<longrightarrow> map_of (rev members) (js ''response'') = None)"
  by (cases data) (auto split: option.splits)

text \<open>
  C9 (as amended).  When the response parses to a value that lacks a \<open>response\<close> field,
  the handler renders nothing: formatting the missing value throws a \<open>TypeError\<close>, which
  goes to the \<open>catch\<close> reaction.  When that reaction runs, it appends the fixed apology
  as a bot entry through \<open>textContent\<close> and logs the error.
\<close>

theorem missing_response_apology:
  assumes "i < length (pending st)" and "pending st ! i = OnResponse loadingId"
      and "getResponse data = Inr Undefined"
      and "j < length (pending st')" and "pending st' ! j = OnRejection loadingId TypeError"
  shows "transcript (settle i (Parsed data) st) = transcript (removeLoading loadingId st)
       \<and> pending (settle i (Parsed data) st) =
           dropNth i (pending st) @ [OnRejection loadingId TypeError]
       \<and> consoleErrors (settle i (Parsed data) st) = consoleErrors st
       \<and> transcript (runCatch j st') =
           transcript (removeLoading loadingId st') @
             [botEntry (nodesCreated st')
                (TextContent (js ''Sorry, something went wrong. Please try again.''))]
       \<and> consoleErrors (runCatch j st') = consoleErrors st' @ [TypeError]"
proof -
  let ?st1 = "st\<lparr>pending := dropNth i (pending st)\<rparr>"
  have tr: "transcript (removeLoading loadingId ?st1) = transcript (removeLoading loadingId st)"
    by (rule removeLoading_pending)
  have od: "onData loadingId data ?st1 =
      ((removeLoading loadingId ?st1)
         \<lparr>chatHistory := chatHistory st @ [\<lparr>role = js ''model'', parts = [Undefined]\<rparr>]\<rparr>,
       Some TypeError)"
    using assms(3) by (simp add: onData_def)
  have a: "transcript (settle i (Parsed data) st) = transcript (removeLoading loadingId st)"
          "pending (settle i (Parsed data) st) =
             dropNth i (pending st) @ [OnRejection loadingId TypeError]"
          "consoleErrors (settle i (Parsed data) st) = consoleErrors st"
    using assms(1,2) by (simp_all add: settle_def od tr)
  let ?st2 = "st'\<lparr>pending := dropNth j (pending st')\<rparr>"
  have tr': "transcript (removeLoading loadingId ?st2) = transcript (removeLoading loadingId st')"
    by (rule removeLoading_pending)
  have rc: "runCatch j st' = onError loadingId TypeError ?st2"
    using assms(4,5) by (simp add: runCatch_def)
  show ?thesis
    by (simp add: a rc onError_eq tr' apology_def)
qed

theorem missing_response_apology_witness:
  "getResponse (JObj [(js ''error'', JStr (js ''quota''))]) = Inr Undefined
   \<and> transcript (settle 0 (Parsed (JObj [(js ''error'', JStr (js ''quota''))])) waiting) =
       [userEntry 0 (js ''hi'')]
   \<and> pending (settle 0 (Parsed (JObj [(js ''error'', JStr (js ''quota''))])) waiting) =
       [OnRejection (js ''loading-1700000000000'') TypeError]
   \<and> transcript (runCatch 0 (settle 0 (Parsed (JObj [(js ''error'', JStr (js ''quota''))])) waiting)) =
       [userEntry 0 (js ''hi''),
        botEntry 2 (TextContent (js ''Sorry, something went wrong. Please try again.''))]"
proof -
  let ?l = "js ''loading-1700000000000''"
  let ?d = "JObj [(js ''error'', JStr (js ''quota''))]"
  have ne: "js ''response'' \<noteq> js ''error''"
    by (simp add: js_def)
  have g: "getResponse ?d = Inr Undefined"
    by (simp add: ne)
  have rl: "transcript (removeLoading ?l waiting) = [userEntry 0 (js ''hi'')]"
    by (simp add: waiting_def eval_simps)
  have p: "pending (settle 0 (Parsed ?d) waiting) = [OnRejection ?l TypeError]"
          "transcript (settle 0 (Parsed ?d) waiting) = [userEntry 0 (js ''hi'')]"
          "nodesCreated (settle 0 (Parsed ?d) waiting) = 2"
          "outer (settle 0 (Parsed ?d) waiting) = hostDocument"
          "attached (settle 0 (Parsed ?d) waiting)"
    by (simp_all add: waiting_def eval_simps)
  have rl2: "transcript (removeLoading ?l (settle 0 (Parsed ?d) waiting)) = [userEntry 0 (js ''hi'')]"
    by (simp add: waiting_def eval_simps)
  from missing_response_apology [of 0 waiting ?l ?d 0 "settle 0 (Parsed ?d) waiting", OF _ _ g]
  show ?thesis
    by (simp add: waiting_fields p rl rl2 ne dropNth_def)
qed

section \<open>The conversation history\<close>

lemma sendMessage_history:
  "\<exists>ts. chatHistory (sendMessage now st) = chatHistory st @ ts \<and> (\<forall>t\<in>set ts. wellShaped t)"
  by (simp add: sendMessage_def Let_def addLoading_def addMessage_def appendEntry_def
        scrollToBottom_def fetchChat_def wellShaped_def)

lemma onData_history:
  "\<exists>ts. chatHistory (fst (onData l d st)) = chatHistory st @ ts \<and> (\<forall>t\<in>set ts. wellShaped t)"
  by (auto simp: onData_def Let_def addMessage_def appendEntry_def scrollToBottom_def wellShaped_def
        split: sum.splits)

lemma onError_history [simp]: "chatHistory (onError l e st) = chatHistory st"
  by (simp add: onError_def Let_def addMessage_def appendEntry_def scrollToBottom_def)

lemma settle_history:
  "\<exists>ts. chatHistory (settle i out st) = chatHistory st @ ts \<and> (\<forall>t\<in>set ts. wellShaped t)"
proof (cases "i < length (pending st)")
  case False
  then show ?thesis by (simp add: settle_def)
next
  case True
  show ?thesis
  proof (cases "pending st ! i")
    case (OnRejection l e)
    with True show ?thesis by (simp add: settle_def)
  next
    case (OnResponse l)
    show ?thesis
    proof (cases out)
      case (Rejected e)
      with True OnResponse show ?thesis by (simp add: settle_def Let_def)
    next
      case (Parsed d)
      obtain st2 r where od: "onData l d (st\<lparr>pending := dropNth i (pending st)\<rparr>) = (st2, r)"
        by (cases "onData l d (st\<lparr>pending := dropNth i (pending st)\<rparr>)")
      from onData_history [of l d "st\<lparr>pending := dropNth i (pending st)\<rparr>"] od
      obtain ts where "chatHistory st2 = chatHistory st @ ts" "\<forall>t\<in>set ts. wellShaped t"
        by auto
      with True OnResponse Parsed od show ?thesis
        by (cases r) (auto simp: settle_def Let_def)
    qed
  qed
qed

lemma runCatch_history [simp]: "chatHistory (runCatch i st) = chatHistory st"
  by (simp add: runCatch_def split: reaction.splits)

text \<open>Every event leaves the history as it was or appends well-shaped turns to it.\<close>

lemma step_history:
  "\<exists>ts. chatHistory (step e st) = chatHistory st @ ts \<and> (\<forall>t\<in>set ts. wellShaped t)"
proof (cases e)
  case (Send now)
  then show ?thesis using sendMessage_history by simp
next
  case (Settle i out)
  then show ?thesis using settle_history by simp
qed (simp_all add: bubbleClick_def closeClick_def maxClick_def Let_def scrollToBottom_def)

lemma run_history: "prefix (chatHistory st) (chatHistory (run es st))"
proof (induction es arbitrary: st)
  case Nil
  show ?case by (simp add: run_def)
next
  case (Cons e es)
  from step_history [of e st] have "prefix (chatHistory st) (chatHistory (step e st))"
    by (auto simp: prefix_def)
  also have "prefix (chatHistory (step e st)) (chatHistory (run es (step e st)))"
    by (rule Cons.IH)
  finally show ?case by (simp add: run_def)
qed

lemma reachable_wellShaped: "reachable st \<Longrightarrow> \<forall>t\<in>set (chatHistory st). wellShaped t"
proof (induction rule: reachable.induct)
  case (reach_initial st)
  then show ?case by (simp add: initial_def)
next
  case (reach_step st e)
  from step_history [of e st] obtain ts
    where "chatHistory (step e st) = chatHistory st @ ts" "\<forall>t\<in>set ts. wellShaped t"
    by auto
  with reach_step.IH show ?case by auto
qed

text \<open>
  C10.  In every state the widget can reach from a freshly loaded page, each turn of the
  history has the role \<open>user\<close> or \<open>model\<close> and exactly one part; and whatever events
  follow, the history of that state stays as a prefix of the later history: no turn is
  removed or moved.
\<close>

theorem history_append_only:
  assumes "reachable st"
  shows "(\<forall>t\<in>set (chatHistory st). wellShaped t)
       \<and> (\<forall>es. prefix (chatHistory st) (chatHistory (run es st)))"
  using reachable_wellShaped [OF assms] run_history by blast

lemma reachable_run: "reachable st \<Longrightarrow> reachable (run es st)"
proof (induction es arbitrary: st)
  case Nil
  then show ?case by (simp add: run_def)
next
  case (Cons e es)
  from Cons.prems have "reachable (step e st)" by (rule reach_step)
  then have "reachable (run es (step e st))" by (rule Cons.IH)
  then show ?case by (simp add: run_def)
qed

lemma reachable_waiting: "reachable waiting"
proof -
  have "initial loaded"
    by (simp add: initial_def loaded_def)
  then have "reachable loaded" by (rule reach_initial)
  then show ?thesis
    unfolding waiting_def by (rule reachable_run)
qed

theorem history_append_only_witness:
  "reachable waiting
   \<and> chatHistory waiting = [\<lparr>role = js ''user'', parts = [Val (JStr (js ''hi''))]\<rparr>]
   \<and> wellShaped \<lparr>role = js ''user'', parts = [Val (JStr (js ''hi''))]\<rparr>
   \<and> prefix [\<lparr>role = js ''user'', parts = [Val (JStr (js ''hi''))]\<rparr>]
        (chatHistory (run [Settle 0 (Parsed (JObj [])), Catch 0, CloseClick] waiting))"
  using history_append_only [OF reachable_waiting] reachable_waiting
  by (simp add: waiting_fields)

section \<open>Properties of the formatter\<close>

text \<open>
  C6.  On \<^verbatim>\<open>**a** *b* `c`\<close>, a newline, \<^verbatim>\<open>- d\<close> the formatter wraps \<open>a\<close> in \<open>strong\<close>, \<open>b\<close> in
  \<open>em\<close> and \<open>c\<close> in \<open>code\<close> markup and puts a line break before the last line; but what
  stands before \<open>d\<close> is the three code units U+00E2, U+20AC, U+00A2 of the source
  literal and a space, not the bullet U+2022.
\<close>

theorem formatMessage_example:
  "formatMessage (js ''**a** *b* `c`\<newline>- d'')
     = js ''<strong>a</strong> <em>b</em> <code>c</code><br>'' @ [0xE2, 0x20AC, 0xA2] @ js '' d''
   \<and> formatMessage (js ''**a** *b* `c`\<newline>- d'')
     \<noteq> js ''<strong>a</strong> <em>b</em> <code>c</code><br>'' @ [0x2022] @ js '' d''"
  by (simp add: formatMessage_def lineBreaks_def bulletGlyph_def char_simps)

subsection \<open>What a match consumes\<close>





subsection \<open>Skeletons\<close>



lemma mark_mark [simp]: "mark (mark s) = mark s"
  by (simp add: mark_def split: list.splits)


lemma mark_asterisk [simp]: "mark (asterisk # X) = asterisk # X"
  by (simp add: mark_def)












subsection \<open>The inline passes keep the skeleton\<close>






subsection \<open>Whether the bullet pass waits for a space depends on the skeleton only\<close>

lemma awaits_copy: "a \<noteq> newline \<Longrightarrow> awaitsSpace (a # t) = awaitsSpace t"
  by simp












subsection \<open>The bullet pass at a bullet line\<close>

















subsection \<open>The text before a bullet line\<close>





subsection \<open>Bullet lines\<close>






end
